theory Spec2Isabelle
  imports Complex_Main "HOL-Library.Sublist" "HOL-Library.Char_ord" "HOL-Library.List_Lexorder"
begin

section \<open>Grade engine\<close>

text \<open>
  The three applications compute with Python floats and JavaScript numbers. They are
  modelled as \<^typ>\<open>real\<close>: comparisons against the thresholds are exact for every finite
  number, and arithmetic is the exact arithmetic that the floating-point operations
  approximate. NaN, the infinities and binary rounding error are outside this model.
\<close>

subsection \<open>\<open>calculate_grade\<close> (vit_result_system.py) and \<open>calculateGrade\<close> (VIT-result-th.py)\<close>

definition calculate_grade :: "real \<Rightarrow> string" where
  "calculate_grade tot =
     (if tot \<ge> 90 then ''A+''
      else if tot \<ge> 80 then ''A''
      else if tot \<ge> 70 then ''B+''
      else if tot \<ge> 60 then ''B''
      else if tot \<ge> 50 then ''C''
      else ''F'')"

record grade_info =
  grade :: string
  gpa :: real

definition calculateGrade :: "real \<Rightarrow> grade_info" where
  "calculateGrade marks =
     (if marks \<ge> 90 then \<lparr>grade = ''A+'', gpa = 10\<rparr>
      else if marks \<ge> 80 then \<lparr>grade = ''A'', gpa = 9\<rparr>
      else if marks \<ge> 70 then \<lparr>grade = ''B+'', gpa = 8\<rparr>
      else if marks \<ge> 60 then \<lparr>grade = ''B'', gpa = 7\<rparr>
      else if marks \<ge> 50 then \<lparr>grade = ''C'', gpa = 6\<rparr>
      else \<lparr>grade = ''F'', gpa = 0\<rparr>)"

definition calculateTotal :: "real \<Rightarrow> real \<Rightarrow> real" where
  "calculateTotal mse ese = mse * 0.3 + ese * 0.7"

subsection \<open>The reference step function of the specification\<close>

text \<open>
  The specification describes \<open>gradeOf\<close> by a table of inclusive lower bounds that is
  scanned from the highest bound down; the first bound that the total reaches gives the
  band, and a total that reaches none is in the failing band.
\<close>

definition grade_bands :: "(real \<times> string \<times> nat) list" where
  "grade_bands = [(90, ''A+'', 10), (80, ''A'', 9), (70, ''B+'', 8), (60, ''B'', 7), (50, ''C'', 6)]"

definition gradeOf_spec :: "real \<Rightarrow> string \<times> nat" where
  "gradeOf_spec tot =
     (case find (\<lambda>(lo, g, p). tot \<ge> lo) grade_bands of
        Some (lo, g, p) \<Rightarrow> (g, p)
      | None \<Rightarrow> (''F'', 0))"

text \<open>The position of a letter grade on the grade-point scale (0 for anything else).\<close>

definition grade_rank :: "string \<Rightarrow> nat" where
  "grade_rank g =
     (case find (\<lambda>(lo, g', p). g' = g) grade_bands of
        Some (lo, g', p) \<Rightarrow> p
      | None \<Rightarrow> 0)"

subsection \<open>Rounding to two decimals\<close>

text \<open>
  Python's \<open>round(x, 2)\<close> rounds to the nearest multiple of 0.01 and resolves a tie to the
  even neighbour; JavaScript's \<open>x.toFixed(2)\<close> prints the nearest multiple of 0.01 and
  resolves a tie away from zero. The printed string is modelled by the number it denotes.
\<close>

definition round_half_even :: "real \<Rightarrow> int" where
  "round_half_even r =
     (let f = \<lfloor>r\<rfloor>; d = r - of_int f
      in if d < 1 / 2 then f
         else if d > 1 / 2 then f + 1
         else if even f then f else f + 1)"

definition py_round2 :: "real \<Rightarrow> real" where
  "py_round2 x = of_int (round_half_even (x * 100)) / 100"

definition toFixed2 :: "real \<Rightarrow> real" where
  "toFixed2 x =
     (if x < 0 then - (of_int \<lfloor>- x * 100 + 1 / 2\<rfloor> / 100)
      else of_int \<lfloor>x * 100 + 1 / 2\<rfloor> / 100)"

subsection \<open>\<open>updateCalculations\<close> (VIT-result-th.py, page script)\<close>

text \<open>
  A subject card carries the contents of its two mark inputs after \<open>parseFloat\<close>:
  \<open>None\<close> stands for NaN (an empty or unreadable field), which \<open>|| 0\<close> turns into 0.
  The callback of \<open>forEach\<close> returns early, after an alert, for a card with a mark outside
  0..100; such a card changes none of the three accumulators. The values that the
  callback writes into the read-only fields of a card are not part of the result
  modelled here.
\<close>

type_synonym subject_card = "real option \<times> real option"

definition or_zero :: "real option \<Rightarrow> real" where
  "or_zero v = (case v of None \<Rightarrow> 0 | Some x \<Rightarrow> x)"

definition card_mse :: "subject_card \<Rightarrow> real" where
  "card_mse c = or_zero (fst c)"

definition card_ese :: "subject_card \<Rightarrow> real" where
  "card_ese c = or_zero (snd c)"

definition marks_rejected :: "subject_card \<Rightarrow> bool" where
  "marks_rejected c \<longleftrightarrow>
     card_mse c < 0 \<or> card_ese c < 0 \<or> card_mse c > 100 \<or> card_ese c > 100"

definition card_grade :: "subject_card \<Rightarrow> grade_info" where
  "card_grade c = calculateGrade (calculateTotal (card_mse c) (card_ese c))"

record calc_state =
  totalGPA :: real
  subjectCount :: nat
  hasFailed :: bool

definition subject_step :: "calc_state \<Rightarrow> subject_card \<Rightarrow> calc_state" where
  "subject_step acc c =
     (if marks_rejected c then acc
      else
        let gradeInfo = card_grade c
        in \<lparr>totalGPA = totalGPA acc + gpa gradeInfo,
            subjectCount = subjectCount acc + 1,
            hasFailed = (if grade gradeInfo = ''F'' then True else hasFailed acc)\<rparr>)"

record calc_display =
  displayCGPA :: real
  displayStatus :: string

definition updateCalculations :: "subject_card list \<Rightarrow> calc_display" where
  "updateCalculations subjects =
     (let acc = foldl subject_step \<lparr>totalGPA = 0, subjectCount = 0, hasFailed = False\<rparr> subjects
      in \<lparr>displayCGPA =
            (if subjectCount acc > 0 then toFixed2 (totalGPA acc / real (subjectCount acc)) else 0),
          displayStatus = (if hasFailed acc then ''Fail'' else ''Pass'')\<rparr>)"

section \<open>Document collections\<close>

text \<open>
  A collection is the list of its documents in natural (insertion) order.
  \<open>find_one\<close> returns the first document that matches the filter, \<open>update_one\<close> changes
  the first match, \<open>delete_one\<close> removes the first match and \<open>delete_many\<close> all of them.
  The connection is assumed to be up: a driver failure is not an outcome of the model.
\<close>

definition find_one :: "('a \<Rightarrow> bool) \<Rightarrow> 'a list \<Rightarrow> 'a option" where
  "find_one P xs = find P xs"

fun update_first :: "('a \<Rightarrow> bool) \<Rightarrow> ('a \<Rightarrow> 'a) \<Rightarrow> 'a list \<Rightarrow> 'a list" where
  "update_first P f [] = []"
| "update_first P f (x # xs) = (if P x then f x # xs else x # update_first P f xs)"

fun delete_one :: "('a \<Rightarrow> bool) \<Rightarrow> 'a list \<Rightarrow> 'a list" where
  "delete_one P [] = []"
| "delete_one P (x # xs) = (if P x then xs else x # delete_one P xs)"

definition deleted_count :: "('a \<Rightarrow> bool) \<Rightarrow> 'a list \<Rightarrow> nat" where
  "deleted_count P xs = (case find_one P xs of None \<Rightarrow> 0 | Some x \<Rightarrow> 1)"

definition delete_many :: "('a \<Rightarrow> bool) \<Rightarrow> 'a list \<Rightarrow> 'a list" where
  "delete_many P xs = filter (\<lambda>x. \<not> P x) xs"

type_synonym datetime = nat

datatype py_error = ValueError | InvalidId | DuplicateKeyError

section \<open>vit_result_system.py\<close>

record student =
  rollNo :: string
  st_name :: string
  st_email :: string
  st_createdAt :: datetime
  st_updatedAt :: datetime

record subject =
  subjectName :: string
  code :: string

record mark =
  studentId :: string
  subjectId :: string
  mseMarks :: real
  eseMarks :: real
  mk_total :: real
  mk_grade :: string
  updatedAt :: datetime
  createdAt :: datetime

record database =
  students :: "student list"
  subjects :: "subject list"
  marks :: "mark list"

definition mark_key :: "string \<Rightarrow> string \<Rightarrow> mark \<Rightarrow> bool" where
  "mark_key student_id subject_id m \<longleftrightarrow> studentId m = student_id \<and> subjectId m = subject_id"

text \<open>
  \<open>add_or_update_marks\<close>: the \<open>$set\<close> part of the update is applied to the first stored
  mark of the pair; when there is none, \<open>upsert=True\<close> inserts the filter's two fields,
  the \<open>$set\<close> part and the \<open>$setOnInsert\<close> part. The two calls of \<open>datetime.now()\<close> are
  the first two arguments.
\<close>

definition set_mark ::
  "string \<Rightarrow> string \<Rightarrow> real \<Rightarrow> real \<Rightarrow> real \<Rightarrow> string \<Rightarrow> datetime \<Rightarrow> mark \<Rightarrow> mark" where
  "set_mark student_id subject_id mse ese tot g now m =
     m\<lparr>studentId := student_id, subjectId := subject_id, mseMarks := mse, eseMarks := ese,
       mk_total := tot, mk_grade := g, updatedAt := now\<rparr>"

definition add_or_update_marks ::
  "datetime \<Rightarrow> datetime \<Rightarrow> string \<Rightarrow> string \<Rightarrow> real \<Rightarrow> real \<Rightarrow> database \<Rightarrow> bool \<times> database" where
  "add_or_update_marks now_set now_insert student_id subject_id mse ese db =
     (let mse_percent = (mse / 30) * 30;
          ese_percent = (ese / 70) * 70;
          tot = mse_percent + ese_percent;
          g = calculate_grade tot;
          ms = marks db;
          ms' = (case find_one (mark_key student_id subject_id) ms of
                   Some existing \<Rightarrow>
                     update_first (mark_key student_id subject_id)
                       (set_mark student_id subject_id mse ese (py_round2 tot) g now_set) ms
                 | None \<Rightarrow>
                     ms @ [\<lparr>studentId = student_id, subjectId = subject_id, mseMarks = mse,
                            eseMarks = ese, mk_total = py_round2 tot, mk_grade = g,
                            updatedAt = now_set, createdAt = now_insert\<rparr>])
      in (True, db\<lparr>marks := ms'\<rparr>))"

definition delete_student :: "string \<Rightarrow> database \<Rightarrow> bool \<times> database" where
  "delete_student roll_no db =
     (let ms' = delete_many (\<lambda>m. studentId m = roll_no) (marks db);
          n = deleted_count (\<lambda>s. rollNo s = roll_no) (students db);
          ss' = delete_one (\<lambda>s. rollNo s = roll_no) (students db)
      in (n > 0, db\<lparr>marks := ms', students := ss'\<rparr>))"

text \<open>
  \<open>get_student_marks\<close>: the pipeline keeps the marks of the student, joins each with the
  subjects whose code is its \<open>subjectId\<close> (one row per joined subject, none for a mark
  without subject), projects the six fields and sorts by subject code.
\<close>

record mark_row =
  subjectCode :: string
  row_subjectName :: string
  row_mseMarks :: real
  row_eseMarks :: real
  row_total :: real
  row_grade :: string

definition lookup_unwind :: "subject list \<Rightarrow> mark \<Rightarrow> mark_row list" where
  "lookup_unwind subs m =
     map (\<lambda>s. \<lparr>subjectCode = subjectId m, row_subjectName = subjectName s,
               row_mseMarks = mseMarks m, row_eseMarks = eseMarks m,
               row_total = mk_total m, row_grade = mk_grade m\<rparr>)
       (filter (\<lambda>s. code s = subjectId m) subs)"

definition get_student_marks :: "database \<Rightarrow> string \<Rightarrow> mark_row list" where
  "get_student_marks db student_id =
     sort_key subjectCode
       (concat (map (lookup_unwind (subjects db))
          (filter (\<lambda>m. studentId m = student_id) (marks db))))"

text \<open>
  \<open>get_dashboard_stats\<close>: the number of students and the class average. The \<open>$group\<close>
  stage yields no document for an empty marks collection, and then the average is the
  literal 0. The top scorer is left out: the order among students with equal averages
  is not fixed by the source.
\<close>

record dashboard_stats =
  total_students :: nat
  class_average :: real

definition get_dashboard_stats :: "database \<Rightarrow> dashboard_stats" where
  "get_dashboard_stats db =
     (let avg_result =
            (if marks db = [] then []
             else [sum_list (map mk_total (marks db)) / real (length (marks db))])
      in \<lparr>total_students = length (students db),
          class_average = (case avg_result of [] \<Rightarrow> 0 | a # _ \<Rightarrow> py_round2 a)\<rparr>)"



section \<open>VIT-result-th.py\<close>

text \<open>
  A stored result has the store's \<open>_id\<close> (here \<open>oid\<close>, the 24 lower-case hexadecimal
  digits that \<open>str\<close> prints) and the six fields that \<open>save_result\<close> writes. A request
  body carries the five keys that the page's script sends; \<open>req_cgpa\<close> is the outcome
  of \<open>float(data['cgpa'])\<close>, \<open>None\<close> when the conversion raises. The collection has a
  unique index on \<open>roll_number\<close>.
\<close>

record result_doc =
  oid :: string
  student_name :: string
  roll_number :: string
  subjects_json :: string
  cgpa :: real
  status :: string
  created_at :: datetime

record save_request =
  req_student_name :: string
  req_roll_number :: string
  req_subjects_json :: string
  req_cgpa :: "real option"
  req_status :: string

datatype response =
    Success_message string
  | Success_data "result_doc list"
  | Failure py_error

definition set_result_data :: "save_request \<Rightarrow> real \<Rightarrow> datetime \<Rightarrow> result_doc \<Rightarrow> result_doc" where
  "set_result_data r c now d =
     d\<lparr>student_name := req_student_name r, roll_number := req_roll_number r,
       subjects_json := req_subjects_json r, cgpa := c, status := req_status r,
       created_at := now\<rparr>"

definition insert_one :: "result_doc \<Rightarrow> result_doc list \<Rightarrow> py_error + result_doc list" where
  "insert_one d coll =
     (if roll_number d \<in> set (map roll_number coll) then Inl DuplicateKeyError
      else Inr (coll @ [d]))"

definition save_result ::
  "datetime \<Rightarrow> string \<Rightarrow> save_request \<Rightarrow> result_doc list \<Rightarrow> response \<times> result_doc list" where
  "save_result now new_id r coll =
     (case req_cgpa r of
        None \<Rightarrow> (Failure ValueError, coll)
      | Some c \<Rightarrow>
          (case find_one (\<lambda>d. roll_number d = req_roll_number r) coll of
             Some existing \<Rightarrow>
               (Success_message ''Result updated successfully!'',
                update_first (\<lambda>d. roll_number d = req_roll_number r) (set_result_data r c now) coll)
           | None \<Rightarrow>
               (case insert_one
                       \<lparr>oid = new_id, student_name = req_student_name r,
                        roll_number = req_roll_number r, subjects_json = req_subjects_json r,
                        cgpa = c, status = req_status r, created_at = now\<rparr> coll of
                  Inl e \<Rightarrow> (Failure e, coll)
                | Inr coll' \<Rightarrow> (Success_message ''Result saved successfully!'', coll'))))"

subsection \<open>\<open>delete_result\<close>\<close>

text \<open>
  \<open>ObjectId(s)\<close> accepts a string of 24 hexadecimal digits and raises \<open>InvalidId\<close> for any
  other string; two strings that differ only in the case of their digits give the same id.
\<close>

definition lower_char :: "char \<Rightarrow> char" where
  "lower_char c =
     (case map_of (zip ''ABCDEFGHIJKLMNOPQRSTUVWXYZ'' ''abcdefghijklmnopqrstuvwxyz'') c of
        Some l \<Rightarrow> l
      | None \<Rightarrow> c)"

definition ObjectId :: "string \<Rightarrow> py_error + string" where
  "ObjectId s =
     (if length s = 24 \<and> list_all (\<lambda>c. lower_char c \<in> set ''0123456789abcdef'') s
      then Inr (map lower_char s)
      else Inl InvalidId)"

definition delete_result :: "string \<Rightarrow> result_doc list \<Rightarrow> response \<times> result_doc list" where
  "delete_result result_id coll =
     (case ObjectId result_id of
        Inl e \<Rightarrow> (Failure e, coll)
      | Inr i \<Rightarrow>
          (Success_message ''Result deleted successfully!'', delete_one (\<lambda>d. oid d = i) coll))"

subsection \<open>\<open>search_result\<close>\<close>










section \<open>bookstore.py\<close>

text \<open>
  The state of the bookstore is the users collection, the session dictionary and the
  queue of flashed messages; rendering a page shows the queued messages and empties
  the queue. A form is the dictionary of the submitted fields; indexing it with a
  missing key aborts the request with status 400.
\<close>

record user =
  u_name :: string
  u_email :: string
  u_password :: string

record web_state =
  users :: "user list"
  session :: "string \<rightharpoonup> string"
  flashes :: "(string \<times> string) list"

datatype http_method = GET | POST

datatype page =
    Redirect string
  | Render string "(string \<times> string) list"
  | BadRequest

definition flash :: "string \<Rightarrow> string \<Rightarrow> web_state \<Rightarrow> web_state" where
  "flash msg category st = st\<lparr>flashes := flashes st @ [(category, msg)]\<rparr>"

definition render_template_string :: "string \<Rightarrow> web_state \<Rightarrow> page \<times> web_state" where
  "render_template_string template st = (Render template (flashes st), st\<lparr>flashes := []\<rparr>)"

definition login :: "http_method \<Rightarrow> (string \<rightharpoonup> string) \<Rightarrow> web_state \<Rightarrow> page \<times> web_state" where
  "login method form st =
     (if method = POST then
        (case form ''email'' of
           None \<Rightarrow> (BadRequest, st)
         | Some e \<Rightarrow>
             (case form ''password'' of
                None \<Rightarrow> (BadRequest, st)
              | Some p \<Rightarrow>
                  (case find_one (\<lambda>u. u_email u = e \<and> u_password u = p) (users st) of
                     Some u \<Rightarrow>
                       (Redirect ''home'',
                        flash (''Welcome back, '' @ u_name u @ ''!'') ''success''
                          (st\<lparr>session := (session st)(''user'' \<mapsto> u_name u)\<rparr>))
                   | None \<Rightarrow>
                       render_template_string ''LOGIN_TEMPLATE''
                         (flash ''Invalid credentials!'' ''error'' st))))
      else render_template_string ''LOGIN_TEMPLATE'' st)"

section \<open>Properties of the grade engine\<close>

lemma grade_rank_simps:
  "grade_rank ''A+'' = 10" "grade_rank ''A'' = 9" "grade_rank ''B+'' = 8"
  "grade_rank ''B'' = 7" "grade_rank ''C'' = 6" "grade_rank ''F'' = 0"
  by (simp_all add: grade_rank_def grade_bands_def)

lemma calculate_grade_spec: "calculate_grade tot = fst (gradeOf_spec tot)"
  by (simp add: calculate_grade_def gradeOf_spec_def grade_bands_def)

lemma calculateGrade_spec:
  "(grade (calculateGrade tot), gpa (calculateGrade tot)) =
     (fst (gradeOf_spec tot), real (snd (gradeOf_spec tot)))"
  by (simp add: calculateGrade_def gradeOf_spec_def grade_bands_def)

lemma calculateGrade_grade: "grade (calculateGrade tot) = calculate_grade tot"
  by (simp add: calculateGrade_def calculate_grade_def)

lemma calculateGrade_gpa: "gpa (calculateGrade tot) = real (grade_rank (calculate_grade tot))"
  by (simp add: calculateGrade_def calculate_grade_def grade_rank_simps)

lemma calculate_grade_mono:
  "x \<le> y \<Longrightarrow> grade_rank (calculate_grade x) \<le> grade_rank (calculate_grade y)"
  by (simp add: calculate_grade_def grade_rank_simps)

lemma calculate_grade_F_iff: "calculate_grade tot = ''F'' \<longleftrightarrow> tot < 50"
  by (simp add: calculate_grade_def)

text \<open>
  C1. For every total, both grade functions of the source agree with the reference step
  function (inclusive lower bounds 90, 80, 70, 60, 50 scanned highest-first, otherwise
  F), with the grade points 10, 9, 8, 7, 6, 0 in the JavaScript variant; 90 is A+, 89.99
  is A, 50 is C and 49.99 is F; and the grade never decreases when the total increases,
  on [0,100) as on every other range.
\<close>

theorem C1_gradeOf_step_function:
  "calculate_grade tot = fst (gradeOf_spec tot)
   \<and> grade (calculateGrade tot) = fst (gradeOf_spec tot)
   \<and> gpa (calculateGrade tot) = real (snd (gradeOf_spec tot))
   \<and> calculate_grade 90 = ''A+'' \<and> calculate_grade 89.99 = ''A''
   \<and> calculate_grade 50 = ''C'' \<and> calculate_grade 49.99 = ''F''
   \<and> grade (calculateGrade 90) = ''A+'' \<and> grade (calculateGrade 89.99) = ''A''
   \<and> grade (calculateGrade 50) = ''C'' \<and> grade (calculateGrade 49.99) = ''F''
   \<and> (0 \<le> x \<and> x \<le> y \<and> y < 100 \<longrightarrow>
        grade_rank (calculate_grade x) \<le> grade_rank (calculate_grade y)
        \<and> gpa (calculateGrade x) \<le> gpa (calculateGrade y))"
proof -
  have spec: "calculate_grade tot = fst (gradeOf_spec tot)"
    by (rule calculate_grade_spec)
  have js: "grade (calculateGrade tot) = fst (gradeOf_spec tot)"
    "gpa (calculateGrade tot) = real (snd (gradeOf_spec tot))"
    using calculateGrade_spec [of tot] by simp_all
  have points: "calculate_grade 90 = ''A+''" "calculate_grade 89.99 = ''A''"
    "calculate_grade 50 = ''C''" "calculate_grade 49.99 = ''F''"
    by (simp_all add: calculate_grade_def)
  have mono: "grade_rank (calculate_grade x) \<le> grade_rank (calculate_grade y)
      \<and> gpa (calculateGrade x) \<le> gpa (calculateGrade y)" if "x \<le> y"
    using calculate_grade_mono [OF that] by (simp add: calculateGrade_gpa)
  from spec js points mono show ?thesis
    by (simp add: calculateGrade_grade)
qed

theorem C1_gradeOf_step_function_witness:
  "calculate_grade 75 = ''B+'' \<and> gradeOf_spec 75 = (''B+'', 8)
   \<and> (0 \<le> (45::real) \<and> (45::real) \<le> 95 \<and> (95::real) < 100)
   \<and> grade_rank (calculate_grade 45) = 0 \<and> grade_rank (calculate_grade 95) = 10
   \<and> grade_rank (calculate_grade 45) \<le> grade_rank (calculate_grade 95)
   \<and> gpa (calculateGrade 45) \<le> gpa (calculateGrade 95)"
  using C1_gradeOf_step_function [of 75 45 95]
  by (simp add: calculate_grade_def gradeOf_spec_def grade_bands_def grade_rank_simps)

section \<open>Properties of \<open>updateCalculations\<close>\<close>


lemma foldl_subjectCount:
  "subjectCount (foldl subject_step acc cs) =
     subjectCount acc + length (filter (\<lambda>c. \<not> marks_rejected c) cs)"
  by (induction cs arbitrary: acc) (auto simp: subject_step_def Let_def)

lemma foldl_totalGPA:
  "totalGPA (foldl subject_step acc cs) =
     totalGPA acc + sum_list (map (\<lambda>c. gpa (card_grade c)) (filter (\<lambda>c. \<not> marks_rejected c) cs))"
  by (induction cs arbitrary: acc) (auto simp: subject_step_def Let_def)

lemma displayCGPA_updateCalculations:
  "displayCGPA (updateCalculations cards) =
     (let accepted = filter (\<lambda>c. \<not> marks_rejected c) cards
      in if accepted = [] then 0
         else toFixed2 (sum_list (map (\<lambda>c. gpa (card_grade c)) accepted) / real (length accepted)))"
  by (simp add: updateCalculations_def Let_def foldl_subjectCount foldl_totalGPA)

lemma card_grade_F_iff:
  "grade (card_grade c) = ''F'' \<longleftrightarrow> calculateTotal (card_mse c) (card_ese c) < 50"
  by (simp add: card_grade_def calculateGrade_grade calculate_grade_F_iff)




text \<open>
  C5. Without subject cards the displayed average is 0 and the status is \<open>Pass\<close>; the
  class average of the dashboard is 0 as well when no mark is stored.
\<close>

theorem C5_empty_aggregate:
  "updateCalculations [] = \<lparr>displayCGPA = 0, displayStatus = ''Pass''\<rparr>
   \<and> class_average (get_dashboard_stats (db\<lparr>marks := []\<rparr>)) = 0"
  by (simp add: updateCalculations_def get_dashboard_stats_def)

section \<open>Properties of the collection operations\<close>


lemma find_one_None_iff: "find_one P xs = None \<longleftrightarrow> (\<forall>x \<in> set xs. \<not> P x)"
  by (auto simp: find_one_def find_None_iff)


lemma filter_not_update_first:
  assumes "\<And>x. P x \<Longrightarrow> P (f x)"
  shows "filter (\<lambda>x. \<not> P x) (update_first P f xs) = filter (\<lambda>x. \<not> P x) xs"
  using assms by (induction xs) auto




lemma filter_append_new:
  "find_one P xs = None \<Longrightarrow> P d \<Longrightarrow> filter P (xs @ [d]) = [d]"
  by (induction xs) (auto simp: find_one_def split: if_splits)

lemma delete_one_filter_length:
  "length (filter P (delete_one P xs)) = length (filter P xs) - 1"
  by (induction xs) auto

lemma delete_one_filter_not:
  "filter (\<lambda>x. \<not> P x) (delete_one P xs) = filter (\<lambda>x. \<not> P x) xs"
  by (induction xs) auto

lemma delete_one_absent: "find_one P xs = None \<Longrightarrow> delete_one P xs = xs"
  by (induction xs) (auto simp: find_one_def split: if_splits)

lemma delete_one_length:
  "find_one P xs = Some d \<Longrightarrow> Suc (length (delete_one P xs)) = length xs"
  by (induction xs) (auto simp: find_one_def split: if_splits)



lemma find_one_Some_iff_ex: "(\<exists>d. find_one P xs = Some d) \<longleftrightarrow> (\<exists>x \<in> set xs. P x)"
  using find_one_None_iff [of P xs] by (cases "find_one P xs") auto

lemma find_one_SomeD: "find_one P xs = Some d \<Longrightarrow> d \<in> set xs \<and> P d"
  by (auto simp: find_one_def find_Some_iff)

lemma map_update_first:
  assumes "\<And>x. P x \<Longrightarrow> key (f x) = key x"
  shows "map key (update_first P f xs) = map key xs"
  using assms by (induction xs) auto

lemma set_delete_one: "x \<in> set (delete_one P xs) \<Longrightarrow> x \<in> set xs"
  by (induction xs) (auto split: if_splits)

lemma distinct_map_delete_one: "distinct (map key xs) \<Longrightarrow> distinct (map key (delete_one P xs))"
  by (induction xs) (auto dest: set_delete_one)

lemma distinct_map_filter_le1:
  "distinct (map key xs) \<Longrightarrow> length (filter (\<lambda>x. key x = k) xs) \<le> 1"
proof (induction xs)
  case Nil
  show ?case by simp
next
  case (Cons x xs)
  show ?case
  proof (cases "key x = k")
    case True
    with Cons.prems have "k \<notin> key ` set xs"
      by simp
    then have "\<forall>y \<in> set xs. key y \<noteq> k"
      by (metis imageI)
    then have "filter (\<lambda>x. key x = k) xs = []"
      by (simp add: filter_empty_conv)
    with True show ?thesis by simp
  next
    case False
    with Cons show ?thesis by simp
  qed
qed

section \<open>Properties of the marks collection\<close>


lemma marks_add_or_update:
  "marks (snd (add_or_update_marks tu ti a b mse ese db)) =
     (case find_one (mark_key a b) (marks db) of
        Some existing \<Rightarrow>
          update_first (mark_key a b)
            (set_mark a b mse ese (py_round2 ((mse / 30) * 30 + (ese / 70) * 70))
               (calculate_grade ((mse / 30) * 30 + (ese / 70) * 70)) tu) (marks db)
      | None \<Rightarrow>
          marks db @ [\<lparr>studentId = a, subjectId = b, mseMarks = mse,
                            eseMarks = ese, mk_total = py_round2 ((mse / 30) * 30 + (ese / 70) * 70),
                            mk_grade = calculate_grade ((mse / 30) * 30 + (ese / 70) * 70),
                            updatedAt = tu, createdAt = ti\<rparr>])"
  by (simp add: add_or_update_marks_def Let_def split: option.splits)



lemma add_or_update_marks_unique:
  assumes "distinct (map (\<lambda>m. (studentId m, subjectId m)) (marks db))"
  shows "distinct (map (\<lambda>m. (studentId m, subjectId m))
           (marks (snd (add_or_update_marks tu ti a b mse ese db))))"
proof (cases "find_one (mark_key a b) (marks db)")
  case None
  then have "(a, b) \<notin> set (map (\<lambda>m. (studentId m, subjectId m)) (marks db))"
    by (auto simp: find_one_None_iff mark_key_def)
  with assms None show ?thesis
    by (simp add: marks_add_or_update)
next
  case (Some e)
  have "map (\<lambda>m. (studentId m, subjectId m))
      (update_first (mark_key a b)
         (set_mark a b mse ese (py_round2 ((mse / 30) * 30 + (ese / 70) * 70))
            (calculate_grade ((mse / 30) * 30 + (ese / 70) * 70)) tu) (marks db))
      = map (\<lambda>m. (studentId m, subjectId m)) (marks db)"
    by (rule map_update_first) (simp add: set_mark_def mark_key_def)
  with assms Some show ?thesis
    by (simp add: marks_add_or_update)
qed

lemma mark_key_le1:
  "distinct (map (\<lambda>m. (studentId m, subjectId m)) ms) \<Longrightarrow> length (filter (mark_key a b) ms) \<le> 1"
  using distinct_map_filter_le1 [of "\<lambda>m. (studentId m, subjectId m)" ms "(a, b)"]
  by (simp add: mark_key_def [abs_def])

lemma scale_cancel: "(mse / 30) * 30 + (ese / 70) * 70 = mse + (ese::real)"
  by simp












section \<open>Properties of the results collection\<close>


lemma insert_one_absent:
  "find_one (\<lambda>d. roll_number d = roll_number new) coll = None \<Longrightarrow> insert_one new coll = Inr (coll @ [new])"
  by (auto simp: insert_one_def find_one_None_iff)

lemma save_result_eq:
  assumes "req_cgpa r = Some c"
  shows "save_result now i r coll =
     (case find_one (\<lambda>d. roll_number d = req_roll_number r) coll of
        Some existing \<Rightarrow>
          (Success_message ''Result updated successfully!'',
           update_first (\<lambda>d. roll_number d = req_roll_number r) (set_result_data r c now) coll)
      | None \<Rightarrow>
          (Success_message ''Result saved successfully!'',
           coll @ [\<lparr>oid = i, student_name = req_student_name r,
                        roll_number = req_roll_number r, subjects_json = req_subjects_json r,
                        cgpa = c, status = req_status r, created_at = now\<rparr>]))"
proof (cases "find_one (\<lambda>d. roll_number d = req_roll_number r) coll")
  case None
  then have "insert_one \<lparr>oid = i, student_name = req_student_name r,
                        roll_number = req_roll_number r, subjects_json = req_subjects_json r,
                        cgpa = c, status = req_status r, created_at = now\<rparr> coll
      = Inr (coll @ [\<lparr>oid = i, student_name = req_student_name r,
                        roll_number = req_roll_number r, subjects_json = req_subjects_json r,
                        cgpa = c, status = req_status r, created_at = now\<rparr>])"
    by (intro insert_one_absent) simp
  with None assms show ?thesis
    by (simp add: save_result_def)
next
  case (Some e)
  with assms show ?thesis
    by (simp add: save_result_def)
qed



text \<open>The unique index on the roll number is kept by both operations.\<close>

lemma save_result_unique:
  assumes "distinct (map roll_number coll)"
  shows "distinct (map roll_number (snd (save_result now i r coll)))"
proof (cases "req_cgpa r")
  case None
  with assms show ?thesis by (simp add: save_result_def)
next
  case (Some c)
  show ?thesis
  proof (cases "find_one (\<lambda>d. roll_number d = req_roll_number r) coll")
    case None
    then have "req_roll_number r \<notin> set (map roll_number coll)"
      by (auto simp: find_one_None_iff)
    with assms None show ?thesis
      by (simp add: save_result_eq [OF Some])
  next
    case (Some e)
    have "map roll_number
        (update_first (\<lambda>d. roll_number d = req_roll_number r) (set_result_data r c now) coll)
        = map roll_number coll"
      by (rule map_update_first) (simp add: set_result_data_def)
    with assms Some \<open>req_cgpa r = Some c\<close> show ?thesis
      by (simp add: save_result_eq)
  qed
qed

lemma delete_result_unique:
  "distinct (map roll_number coll) \<Longrightarrow> distinct (map roll_number (snd (delete_result i coll)))"
  by (cases "ObjectId i") (simp_all add: delete_result_def distinct_map_delete_one)



section \<open>Deletion\<close>

lemma fst_delete_student:
  "fst (delete_student r db) \<longleftrightarrow> (\<exists>s \<in> set (students db). rollNo s = r)"
  using find_one_None_iff [of "\<lambda>s. rollNo s = r" "students db"]
  by (cases "find_one (\<lambda>s. rollNo s = r) (students db)")
     (auto simp: delete_student_def deleted_count_def Let_def)

lemma students_delete_student:
  "students (snd (delete_student r db)) = delete_one (\<lambda>s. rollNo s = r) (students db)"
  by (simp add: delete_student_def Let_def)

lemma marks_delete_student:
  "marks (snd (delete_student r db)) = filter (\<lambda>m. studentId m \<noteq> r) (marks db)"
  by (simp add: delete_student_def Let_def delete_many_def)

lemma delete_student_unique:
  assumes "distinct (map (\<lambda>m. (studentId m, subjectId m)) (marks db))"
  shows "distinct (map (\<lambda>m. (studentId m, subjectId m)) (marks (snd (delete_student r db))))"
  using assms by (simp add: marks_delete_student distinct_map_filter)

lemma delete_student_present:
  "(\<exists>s \<in> set (students db). rollNo s = r) \<longrightarrow>
     Suc (length (students (snd (delete_student r db)))) = length (students db)
     \<and> length (filter (\<lambda>s. rollNo s = r) (students (snd (delete_student r db))))
         = length (filter (\<lambda>s. rollNo s = r) (students db)) - 1"
proof
  assume "\<exists>s \<in> set (students db). rollNo s = r"
  then obtain d where "find_one (\<lambda>s. rollNo s = r) (students db) = Some d"
    using find_one_Some_iff_ex [of "\<lambda>s. rollNo s = r" "students db"] by auto
  then have "Suc (length (delete_one (\<lambda>s. rollNo s = r) (students db))) = length (students db)"
    by (rule delete_one_length)
  then show "Suc (length (students (snd (delete_student r db)))) = length (students db)
        \<and> length (filter (\<lambda>s. rollNo s = r) (students (snd (delete_student r db))))
            = length (filter (\<lambda>s. rollNo s = r) (students db)) - 1"
    by (simp add: students_delete_student delete_one_filter_length)
qed

lemma delete_student_absent:
  "\<not> (\<exists>s \<in> set (students db). rollNo s = r) \<longrightarrow>
     students (snd (delete_student r db)) = students db"
proof
  assume "\<not> (\<exists>s \<in> set (students db). rollNo s = r)"
  then have "find_one (\<lambda>s. rollNo s = r) (students db) = None"
    by (simp add: find_one_None_iff)
  then show "students (snd (delete_student r db)) = students db"
    by (simp add: students_delete_student delete_one_absent)
qed

lemma delete_student_others:
  "filter (\<lambda>s. rollNo s \<noteq> r) (students (snd (delete_student r db)))
     = filter (\<lambda>s. rollNo s \<noteq> r) (students db)"
  by (simp add: students_delete_student delete_one_filter_not)

lemma delete_result_well_formed:
  "\<forall>i. ObjectId result_id = Inr i \<longrightarrow>
     delete_result result_id coll =
       (Success_message ''Result deleted successfully!'', delete_one (\<lambda>d. oid d = i) coll)
     \<and> ((\<forall>d \<in> set coll. oid d \<noteq> i) \<longrightarrow> snd (delete_result result_id coll) = coll)"
proof (intro allI impI conjI)
  fix i assume i: "ObjectId result_id = Inr i"
  then show "delete_result result_id coll =
          (Success_message ''Result deleted successfully!'', delete_one (\<lambda>d. oid d = i) coll)"
    by (simp add: delete_result_def)
  assume "\<forall>d \<in> set coll. oid d \<noteq> i"
  then have "find_one (\<lambda>d. oid d = i) coll = None"
    by (simp add: find_one_None_iff)
  with i show "snd (delete_result result_id coll) = coll"
    by (simp add: delete_result_def delete_one_absent)
qed

lemma delete_result_ill_formed:
  "\<forall>e. ObjectId result_id = Inl e \<longrightarrow> delete_result result_id coll = (Failure e, coll)"
  by (simp add: delete_result_def)

text \<open>
  C6 (as amended). \<open>delete_student\<close> returns true exactly when a student with the roll
  number was stored, and then one such record is gone; otherwise it returns false and
  the students are unchanged. \<open>delete_result\<close> answers with the success message for
  every well-formed id, whether a record with that id was stored or not, and with a
  failure only for an id that is not well-formed.
\<close>

theorem C6_delete_reports:
  "(fst (delete_student r db) \<longleftrightarrow> (\<exists>s \<in> set (students db). rollNo s = r))
   \<and> ((\<exists>s \<in> set (students db). rollNo s = r) \<longrightarrow>
        Suc (length (students (snd (delete_student r db)))) = length (students db)
        \<and> length (filter (\<lambda>s. rollNo s = r) (students (snd (delete_student r db))))
            = length (filter (\<lambda>s. rollNo s = r) (students db)) - 1)
   \<and> (\<not> (\<exists>s \<in> set (students db). rollNo s = r) \<longrightarrow>
        students (snd (delete_student r db)) = students db)
   \<and> filter (\<lambda>s. rollNo s \<noteq> r) (students (snd (delete_student r db)))
        = filter (\<lambda>s. rollNo s \<noteq> r) (students db)
   \<and> (\<forall>i. ObjectId result_id = Inr i \<longrightarrow>
        delete_result result_id coll =
          (Success_message ''Result deleted successfully!'', delete_one (\<lambda>d. oid d = i) coll)
        \<and> ((\<forall>d \<in> set coll. oid d \<noteq> i) \<longrightarrow> snd (delete_result result_id coll) = coll))
   \<and> (\<forall>e. ObjectId result_id = Inl e \<longrightarrow> delete_result result_id coll = (Failure e, coll))"
  by (intro conjI fst_delete_student delete_student_present delete_student_absent
      delete_student_others delete_result_well_formed delete_result_ill_formed)

theorem C6_delete_reports_witness:
  "(\<exists>s \<in> set (students \<lparr>students = [\<lparr>rollNo = ''21A'', st_name = ''asha'', st_email = ''asha@vit.edu'',
              st_createdAt = 1, st_updatedAt = 1\<rparr>,
            \<lparr>rollNo = ''21B'', st_name = ''bala'', st_email = ''bala@vit.edu'',
              st_createdAt = 1, st_updatedAt = 1\<rparr>],
          subjects = [], marks = []\<rparr>). rollNo s = ''21A'')
   \<and> fst (delete_student ''21A'' \<lparr>students = [\<lparr>rollNo = ''21A'', st_name = ''asha'', st_email = ''asha@vit.edu'',
              st_createdAt = 1, st_updatedAt = 1\<rparr>,
            \<lparr>rollNo = ''21B'', st_name = ''bala'', st_email = ''bala@vit.edu'',
              st_createdAt = 1, st_updatedAt = 1\<rparr>],
          subjects = [], marks = []\<rparr>)
   \<and> students (snd (delete_student ''21A'' \<lparr>students = [\<lparr>rollNo = ''21A'', st_name = ''asha'', st_email = ''asha@vit.edu'',
              st_createdAt = 1, st_updatedAt = 1\<rparr>,
            \<lparr>rollNo = ''21B'', st_name = ''bala'', st_email = ''bala@vit.edu'',
              st_createdAt = 1, st_updatedAt = 1\<rparr>],
          subjects = [], marks = []\<rparr>))
       = [\<lparr>rollNo = ''21B'', st_name = ''bala'', st_email = ''bala@vit.edu'',
              st_createdAt = 1, st_updatedAt = 1\<rparr>]
   \<and> \<not> (\<exists>s \<in> set (students \<lparr>students = [\<lparr>rollNo = ''21A'', st_name = ''asha'', st_email = ''asha@vit.edu'',
              st_createdAt = 1, st_updatedAt = 1\<rparr>,
            \<lparr>rollNo = ''21B'', st_name = ''bala'', st_email = ''bala@vit.edu'',
              st_createdAt = 1, st_updatedAt = 1\<rparr>],
          subjects = [], marks = []\<rparr>). rollNo s = ''21Z'')
   \<and> \<not> fst (delete_student ''21Z'' \<lparr>students = [\<lparr>rollNo = ''21A'', st_name = ''asha'', st_email = ''asha@vit.edu'',
              st_createdAt = 1, st_updatedAt = 1\<rparr>,
            \<lparr>rollNo = ''21B'', st_name = ''bala'', st_email = ''bala@vit.edu'',
              st_createdAt = 1, st_updatedAt = 1\<rparr>],
          subjects = [], marks = []\<rparr>)
   \<and> students (snd (delete_student ''21Z'' \<lparr>students = [\<lparr>rollNo = ''21A'', st_name = ''asha'', st_email = ''asha@vit.edu'',
              st_createdAt = 1, st_updatedAt = 1\<rparr>,
            \<lparr>rollNo = ''21B'', st_name = ''bala'', st_email = ''bala@vit.edu'',
              st_createdAt = 1, st_updatedAt = 1\<rparr>],
          subjects = [], marks = []\<rparr>))
       = students \<lparr>students = [\<lparr>rollNo = ''21A'', st_name = ''asha'', st_email = ''asha@vit.edu'',
              st_createdAt = 1, st_updatedAt = 1\<rparr>,
            \<lparr>rollNo = ''21B'', st_name = ''bala'', st_email = ''bala@vit.edu'',
              st_createdAt = 1, st_updatedAt = 1\<rparr>],
          subjects = [], marks = []\<rparr>
   \<and> ObjectId ''65A000000000000000000001'' = Inr ''65a000000000000000000001''
   \<and> delete_result ''65A000000000000000000001''
        [\<lparr>oid = ''65a000000000000000000001'', student_name = ''Asha'',
          roll_number = ''21AIML001'', subjects_json = ''[]'', cgpa = 4.5, status = ''Fail'',
          created_at = 1\<rparr>]
       = (Success_message ''Result deleted successfully!'', [])
   \<and> ObjectId ''not-an-id'' = Inl InvalidId
   \<and> delete_result ''not-an-id''
        [\<lparr>oid = ''65a000000000000000000001'', student_name = ''Asha'',
          roll_number = ''21AIML001'', subjects_json = ''[]'', cgpa = 4.5, status = ''Fail'',
          created_at = 1\<rparr>]
       = (Failure InvalidId,
          [\<lparr>oid = ''65a000000000000000000001'', student_name = ''Asha'',
          roll_number = ''21AIML001'', subjects_json = ''[]'', cgpa = 4.5, status = ''Fail'',
          created_at = 1\<rparr>])"
proof -
  let ?db = "\<lparr>students = [\<lparr>rollNo = ''21A'', st_name = ''asha'', st_email = ''asha@vit.edu'',
              st_createdAt = 1, st_updatedAt = 1\<rparr>,
            \<lparr>rollNo = ''21B'', st_name = ''bala'', st_email = ''bala@vit.edu'',
              st_createdAt = 1, st_updatedAt = 1\<rparr>],
          subjects = [], marks = []\<rparr>"
  let ?coll = "[\<lparr>oid = ''65a000000000000000000001'', student_name = ''Asha'',
          roll_number = ''21AIML001'', subjects_json = ''[]'', cgpa = 4.5, status = ''Fail'',
          created_at = 1\<rparr>]"
  note present = C6_delete_reports [of "''21A''" ?db "''65A000000000000000000001''" ?coll]
  note absent = C6_delete_reports [of "''21Z''" ?db "''not-an-id''" ?coll]
  have ex: "\<exists>s \<in> set (students ?db). rollNo s = ''21A''"
    by simp
  have nex: "\<not> (\<exists>s \<in> set (students ?db). rollNo s = ''21Z'')"
    by simp
  have good: "ObjectId ''65A000000000000000000001'' = Inr ''65a000000000000000000001''"
    by (simp add: ObjectId_def lower_char_def)
  have bad: "ObjectId ''not-an-id'' = Inl InvalidId"
    by (simp add: ObjectId_def)
  from present ex have a1: "fst (delete_student ''21A'' ?db)"
    by blast
  have a2: "students (snd (delete_student ''21A'' ?db)) = [\<lparr>rollNo = ''21B'', st_name = ''bala'', st_email = ''bala@vit.edu'',
              st_createdAt = 1, st_updatedAt = 1\<rparr>]"
    by (simp add: students_delete_student)
  from absent nex have b1: "\<not> fst (delete_student ''21Z'' ?db)"
    by blast
  from absent nex have b2: "students (snd (delete_student ''21Z'' ?db)) = students ?db"
    by blast
  from present good have "delete_result ''65A000000000000000000001'' ?coll =
      (Success_message ''Result deleted successfully!'',
       delete_one (\<lambda>d. oid d = ''65a000000000000000000001'') ?coll)"
    by blast
  then have a3: "delete_result ''65A000000000000000000001'' ?coll =
      (Success_message ''Result deleted successfully!'', [])"
    by simp
  from absent bad have b3: "delete_result ''not-an-id'' ?coll = (Failure InvalidId, ?coll)"
    by blast
  from ex a1 a2 nex b1 b2 good a3 bad b3 show ?thesis
    by (intro conjI)
qed

text \<open>
  The claim as stated fails for \<open>delete_result\<close>: on an empty collection, where no
  record has the id, the answer is still the success message.
\<close>

theorem C6_absent_id_counterexample:
  "delete_result ''000000000000000000000000'' []
     = (Success_message ''Result deleted successfully!'', [])"
  by (simp add: delete_result_def ObjectId_def lower_char_def)

text \<open>
  C7. After \<open>delete_student\<close> no stored mark has the roll number as its student key,
  \<open>get_student_marks\<close> for that key is empty, and the marks of other students are kept.
\<close>

theorem C7_delete_student_cascades:
  "filter (\<lambda>m. studentId m = r) (marks (snd (delete_student r db))) = []
   \<and> get_student_marks (snd (delete_student r db)) r = []
   \<and> filter (\<lambda>m. studentId m \<noteq> r) (marks (snd (delete_student r db)))
       = filter (\<lambda>m. studentId m \<noteq> r) (marks db)"
  by (simp add: get_student_marks_def marks_delete_student)

theorem C7_delete_student_cascades_witness:
  "get_student_marks
       \<lparr>students = [\<lparr>rollNo = ''21A'', st_name = ''asha'', st_email = ''asha@vit.edu'', st_createdAt = 1, st_updatedAt = 1\<rparr>,
            \<lparr>rollNo = ''21B'', st_name = ''bala'', st_email = ''bala@vit.edu'', st_createdAt = 1, st_updatedAt = 1\<rparr>],
          subjects = [\<lparr>subjectName = ''Machine Learning'', code = ''ML3003''\<rparr>],
          marks = [\<lparr>studentId = ''21A'', subjectId = ''ML3003'', mseMarks = 24, eseMarks = 56, mk_total = 80, mk_grade = ''A'', updatedAt = 2, createdAt = 2\<rparr>,
            \<lparr>studentId = ''21B'', subjectId = ''ML3003'', mseMarks = 10, eseMarks = 20, mk_total = 30, mk_grade = ''F'', updatedAt = 2, createdAt = 2\<rparr>]\<rparr> ''21A''
     = [\<lparr>subjectCode = ''ML3003'', row_subjectName = ''Machine Learning'', row_mseMarks = 24,
         row_eseMarks = 56, row_total = 80, row_grade = ''A''\<rparr>]
   \<and> get_student_marks (snd (delete_student ''21A''
       \<lparr>students = [\<lparr>rollNo = ''21A'', st_name = ''asha'', st_email = ''asha@vit.edu'', st_createdAt = 1, st_updatedAt = 1\<rparr>,
            \<lparr>rollNo = ''21B'', st_name = ''bala'', st_email = ''bala@vit.edu'', st_createdAt = 1, st_updatedAt = 1\<rparr>],
          subjects = [\<lparr>subjectName = ''Machine Learning'', code = ''ML3003''\<rparr>],
          marks = [\<lparr>studentId = ''21A'', subjectId = ''ML3003'', mseMarks = 24, eseMarks = 56, mk_total = 80, mk_grade = ''A'', updatedAt = 2, createdAt = 2\<rparr>,
            \<lparr>studentId = ''21B'', subjectId = ''ML3003'', mseMarks = 10, eseMarks = 20, mk_total = 30, mk_grade = ''F'', updatedAt = 2, createdAt = 2\<rparr>]\<rparr>)) ''21A'' = []
   \<and> marks (snd (delete_student ''21A''
       \<lparr>students = [\<lparr>rollNo = ''21A'', st_name = ''asha'', st_email = ''asha@vit.edu'', st_createdAt = 1, st_updatedAt = 1\<rparr>,
            \<lparr>rollNo = ''21B'', st_name = ''bala'', st_email = ''bala@vit.edu'', st_createdAt = 1, st_updatedAt = 1\<rparr>],
          subjects = [\<lparr>subjectName = ''Machine Learning'', code = ''ML3003''\<rparr>],
          marks = [\<lparr>studentId = ''21A'', subjectId = ''ML3003'', mseMarks = 24, eseMarks = 56, mk_total = 80, mk_grade = ''A'', updatedAt = 2, createdAt = 2\<rparr>,
            \<lparr>studentId = ''21B'', subjectId = ''ML3003'', mseMarks = 10, eseMarks = 20, mk_total = 30, mk_grade = ''F'', updatedAt = 2, createdAt = 2\<rparr>]\<rparr>))
     = [\<lparr>studentId = ''21B'', subjectId = ''ML3003'', mseMarks = 10, eseMarks = 20, mk_total = 30, mk_grade = ''F'', updatedAt = 2, createdAt = 2\<rparr>]"
  using C7_delete_student_cascades [of "''21A''"
       "\<lparr>students = [\<lparr>rollNo = ''21A'', st_name = ''asha'', st_email = ''asha@vit.edu'', st_createdAt = 1, st_updatedAt = 1\<rparr>,
            \<lparr>rollNo = ''21B'', st_name = ''bala'', st_email = ''bala@vit.edu'', st_createdAt = 1, st_updatedAt = 1\<rparr>],
          subjects = [\<lparr>subjectName = ''Machine Learning'', code = ''ML3003''\<rparr>],
          marks = [\<lparr>studentId = ''21A'', subjectId = ''ML3003'', mseMarks = 24, eseMarks = 56, mk_total = 80, mk_grade = ''A'', updatedAt = 2, createdAt = 2\<rparr>,
            \<lparr>studentId = ''21B'', subjectId = ''ML3003'', mseMarks = 10, eseMarks = 20, mk_total = 30, mk_grade = ''F'', updatedAt = 2, createdAt = 2\<rparr>]\<rparr>"]
  by (simp add: get_student_marks_def lookup_unwind_def delete_student_def delete_many_def)

section \<open>Search\<close>







section \<open>Login\<close>

lemma login_found:
  assumes "form ''email'' = Some e" and "form ''password'' = Some p"
    and "find_one (\<lambda>u. u_email u = e \<and> u_password u = p) (users st) = Some u"
  shows "login POST form st =
     (Redirect ''home'',
      st\<lparr>session := (session st)(''user'' \<mapsto> u_name u),
         flashes := flashes st @ [(''success'', ''Welcome back, '' @ u_name u @ ''!'')]\<rparr>)"
  using assms by (simp add: login_def flash_def)

lemma login_not_found:
  assumes "form ''email'' = Some e" and "form ''password'' = Some p"
    and "find_one (\<lambda>u. u_email u = e \<and> u_password u = p) (users st) = None"
  shows "login POST form st =
     (Render ''LOGIN_TEMPLATE'' (flashes st @ [(''error'', ''Invalid credentials!'')]),
      st\<lparr>flashes := []\<rparr>)"
  using assms by (simp add: login_def flash_def render_template_string_def)

text \<open>
  C10. A POST request that submits an email and a password is authenticated (answered
  by the redirect to the home page) exactly when some stored user has that email and that
  password, compared as plain strings; then the session's user is the name of such a
  user (the first stored one). Otherwise the session dictionary and the users are
  unchanged and the login page is rendered again with the message of failure.
\<close>

theorem C10_login_authenticates:
  assumes "form ''email'' = Some e" and "form ''password'' = Some p"
  shows "(fst (login POST form st) = Redirect ''home'' \<longleftrightarrow>
            (\<exists>u \<in> set (users st). u_email u = e \<and> u_password u = p))
     \<and> ((\<exists>u \<in> set (users st). u_email u = e \<and> u_password u = p) \<longrightarrow>
            (\<exists>u \<in> set (users st). u_email u = e \<and> u_password u = p
               \<and> session (snd (login POST form st)) = (session st)(''user'' \<mapsto> u_name u)))
     \<and> (\<not> (\<exists>u \<in> set (users st). u_email u = e \<and> u_password u = p) \<longrightarrow>
            session (snd (login POST form st)) = session st
            \<and> users (snd (login POST form st)) = users st
            \<and> fst (login POST form st)
                = Render ''LOGIN_TEMPLATE'' (flashes st @ [(''error'', ''Invalid credentials!'')]))"
proof (cases "find_one (\<lambda>u. u_email u = e \<and> u_password u = p) (users st)")
  case None
  then have "\<not> (\<exists>u \<in> set (users st). u_email u = e \<and> u_password u = p)"
    by (simp add: find_one_None_iff)
  with login_not_found [OF assms None] show ?thesis
    by auto
next
  case (Some u)
  then have u: "u \<in> set (users st)" "u_email u = e" "u_password u = p"
    using find_one_SomeD [OF Some] by simp_all
  then have ex: "\<exists>u \<in> set (users st). u_email u = e \<and> u_password u = p"
    by blast
  have "\<exists>u \<in> set (users st). u_email u = e \<and> u_password u = p
      \<and> session (snd (login POST form st)) = (session st)(''user'' \<mapsto> u_name u)"
    using u login_found [OF assms Some] by auto
  with ex login_found [OF assms Some] show ?thesis
    by simp
qed

theorem C10_login_authenticates_witness:
  "[''email'' \<mapsto> ''asha@example.com'', ''password'' \<mapsto> ''s3cret''] ''email'' = Some ''asha@example.com''
   \<and> [''email'' \<mapsto> ''asha@example.com'', ''password'' \<mapsto> ''s3cret''] ''password'' = Some ''s3cret''
   \<and> fst (login POST [''email'' \<mapsto> ''asha@example.com'', ''password'' \<mapsto> ''s3cret'']
        \<lparr>users = [\<lparr>u_name = ''Asha'', u_email = ''asha@example.com'', u_password = ''s3cret''\<rparr>],
          session = Map.empty, flashes = []\<rparr>) = Redirect ''home''
   \<and> session (snd (login POST [''email'' \<mapsto> ''asha@example.com'', ''password'' \<mapsto> ''s3cret'']
        \<lparr>users = [\<lparr>u_name = ''Asha'', u_email = ''asha@example.com'', u_password = ''s3cret''\<rparr>],
          session = Map.empty, flashes = []\<rparr>)) ''user'' = Some ''Asha''
   \<and> [''email'' \<mapsto> ''asha@example.com'', ''password'' \<mapsto> ''S3CRET''] ''password'' = Some ''S3CRET''
   \<and> fst (login POST [''email'' \<mapsto> ''asha@example.com'', ''password'' \<mapsto> ''S3CRET'']
        \<lparr>users = [\<lparr>u_name = ''Asha'', u_email = ''asha@example.com'', u_password = ''s3cret''\<rparr>],
          session = Map.empty, flashes = []\<rparr>)
      = Render ''LOGIN_TEMPLATE'' [(''error'', ''Invalid credentials!'')]
   \<and> login POST [''email'' \<mapsto> ''asha@example.com'', ''password'' \<mapsto> ''S3CRET'']
        \<lparr>users = [\<lparr>u_name = ''Asha'', u_email = ''asha@example.com'', u_password = ''s3cret''\<rparr>],
          session = Map.empty, flashes = []\<rparr>
      = (Render ''LOGIN_TEMPLATE'' [(''error'', ''Invalid credentials!'')],
         \<lparr>users = [\<lparr>u_name = ''Asha'', u_email = ''asha@example.com'', u_password = ''s3cret''\<rparr>],
          session = Map.empty, flashes = []\<rparr>)"
proof -
  let ?st = "\<lparr>users = [\<lparr>u_name = ''Asha'', u_email = ''asha@example.com'', u_password = ''s3cret''\<rparr>],
          session = Map.empty, flashes = []\<rparr>"
  let ?good = "[''email'' \<mapsto> ''asha@example.com'', ''password'' \<mapsto> ''s3cret'']"
  let ?bad = "[''email'' \<mapsto> ''asha@example.com'', ''password'' \<mapsto> ''S3CRET'']"
  have e1: "?good ''email'' = Some ''asha@example.com''" and p1: "?good ''password'' = Some ''s3cret''"
    and e2: "?bad ''email'' = Some ''asha@example.com''" and p2: "?bad ''password'' = Some ''S3CRET''"
    by simp_all
  have ex: "\<exists>u \<in> set (users ?st). u_email u = ''asha@example.com'' \<and> u_password u = ''s3cret''"
    by simp
  have nex: "\<not> (\<exists>u \<in> set (users ?st). u_email u = ''asha@example.com'' \<and> u_password u = ''S3CRET'')"
    by simp
  from C10_login_authenticates [OF e1 p1, of ?st] ex
  have a: "fst (login POST ?good ?st) = Redirect ''home''"
    by blast
  have b: "session (snd (login POST ?good ?st)) ''user'' = Some ''Asha''"
    by (simp add: login_def find_one_def flash_def)
  from C10_login_authenticates [OF e2 p2, of ?st] nex
  have "fst (login POST ?bad ?st)
      = Render ''LOGIN_TEMPLATE'' (flashes ?st @ [(''error'', ''Invalid credentials!'')])"
    by blast
  then have c0: "fst (login POST ?bad ?st) = Render ''LOGIN_TEMPLATE'' [(''error'', ''Invalid credentials!'')]"
    by simp
  have c: "login POST ?bad ?st = (Render ''LOGIN_TEMPLATE'' [(''error'', ''Invalid credentials!'')], ?st)"
    by (simp add: login_def find_one_def flash_def render_template_string_def)
  from e1 p1 a b p2 c0 c show ?thesis
    by (intro conjI)
qed

end
